theory Spec2Isabelle
  imports Main
begin

section \<open>Values, records and results\<close>

text \<open>
  The script \<^verbatim>\<open>experiments/caching_gemma/generate_explanations_and_scores.py\<close>
  builds a two-position pipeline (an explainer stage, then a fan-out of a detection
  and a fuzzing scorer), creates the result directories, writes the experiment
  configuration and runs the pipeline with at most 50 items in flight.

  Python values that are only stored or serialised (explanations, scores, the
  configuration dictionary, example lists) are kept as a small value type.
\<close>

datatype pyval =
    PyNone
  | PyBool bool
  | PyInt int
  | PyStr string
  | PyList "pyval list"
  | PyDict "(string \<times> pyval) list"

text \<open>
  What is written to a file: the value handed to \<^verbatim>\<open>orjson.dumps\<close> or to
  \<^verbatim>\<open>json.dumps\<close>. The byte encoding the two libraries produce is not modelled.
\<close>

datatype chunk = Orjson_dumps pyval | Json_dumps pyval

datatype error =
    FileNotFoundError string
  | FileExistsError string
  | IsADirectoryError string
  | UnboundLocalError string
  | BackendError string

text \<open>
  A feature record is a mutable object; the hooks read \<^verbatim>\<open>record.feature\<close> and
  \<^verbatim>\<open>record.random_examples\<close> and assign \<^verbatim>\<open>record.explanation\<close> and
  \<^verbatim>\<open>record.extra_examples\<close>. The field \<open>feature\<close> holds the text that the
  f-string interpolation \<^verbatim>\<open>{record.feature}\<close> yields. An attribute that has
  not been assigned yet is \<open>None\<close>.
\<close>

record feature_record =
  feature :: string
  random_examples :: pyval
  extra_examples :: "pyval option"
  explanation :: "pyval option"

text \<open>
  Stage results refer to their record by address: \<^verbatim>\<open>result.record\<close> is the
  same object the loader produced, shared by everything that holds the result.
\<close>

record explainer_result =
  er_record :: nat
  er_explanation :: pyval

record scorer_result =
  sr_record :: nat
  sr_score :: pyval

datatype stage = Explainer | Detection | Fuzz

datatype event =
    EvMakedirs string
  | EvWrite string chunk
  | EvAdmit nat
  | EvBegin nat stage
  | EvEnd nat stage
  | EvFail nat stage error
  | EvDone nat
  | EvAbandon nat

text \<open>
  The world the script acts on: the object store, the directories and files under the
  working directory, and the journal of what has happened so far (oldest first).
  A file's content is the list of chunks written to it since it was last truncated.
\<close>

record world =
  store :: "nat \<Rightarrow> feature_record"
  dirs :: "string set"
  files :: "string \<rightharpoonup> chunk list"
  trace :: "event list"

record run_args =
  sae_model :: string
  experiment_name :: string
  quantization :: string
  experiment_cfg :: pyval

section \<open>The file system operations the script uses\<close>

datatype open_mode = ModeW | ModeWB | ModeA

definition parent :: "string \<Rightarrow> string" where
  "parent p = rev (drop 1 (dropWhile (\<lambda>c. c \<noteq> CHR ''/'') (rev p)))"

definition ancestors :: "string \<Rightarrow> string list" where
  "ancestors p = [take i p. i \<leftarrow> [1..<length p], p ! i = CHR ''/'']"

text \<open>
  \<^verbatim>\<open>os.makedirs(path, exist_ok=flag)\<close>: creates the leaf and every missing
  intermediate directory; an existing leaf directory is an error unless the flag is set;
  a file at the path is an error in either case.
\<close>

definition makedirs :: "string \<Rightarrow> bool \<Rightarrow> world \<Rightarrow> error + world" where
  "makedirs p exist_ok w =
     (if files w p \<noteq> None then Inl (FileExistsError p)
      else if p \<in> dirs w then
        (if exist_ok then Inr (w\<lparr>trace := trace w @ [EvMakedirs p]\<rparr>)
         else Inl (FileExistsError p))
      else Inr (w\<lparr>dirs := insert p (set (ancestors p) \<union> dirs w),
                  trace := trace w @ [EvMakedirs p]\<rparr>))"

text \<open>
  \<^verbatim>\<open>with open(path, mode) as f: f.write(data)\<close>. The directory that is to hold the
  file must exist (the working directory always does); \<^verbatim>\<open>"w"\<close> and \<^verbatim>\<open>"wb"\<close>
  truncate, \<^verbatim>\<open>"a"\<close> appends.
\<close>

definition open_write :: "string \<Rightarrow> open_mode \<Rightarrow> chunk \<Rightarrow> world \<Rightarrow> error + world" where
  "open_write p m c w =
     (if p \<in> dirs w then Inl (IsADirectoryError p)
      else if parent p \<noteq> [] \<and> parent p \<notin> dirs w then Inl (FileNotFoundError p)
      else Inr (w\<lparr>files := (files w)(p \<mapsto>
                    (case m of ModeA \<Rightarrow> (case files w p of None \<Rightarrow> [] | Some old \<Rightarrow> old) @ [c]
                             | _ \<Rightarrow> [c])),
                  trace := trace w @ [EvWrite p c]\<rparr>))"

section \<open>Paths\<close>

definition explanations_dir :: "run_args \<Rightarrow> string" where
  "explanations_dir a = ''results/explanations/'' @ sae_model a @ ''/'' @ experiment_name a"

definition explanation_path :: "run_args \<Rightarrow> string \<Rightarrow> string" where
  "explanation_path a f =
     ''results/explanations/'' @ sae_model a @ ''/'' @ experiment_name a @ ''/'' @ f @ ''.txt''"

definition scores_dir :: "run_args \<Rightarrow> string \<Rightarrow> string" where
  "scores_dir a score_dir =
     ''results/scores/'' @ sae_model a @ ''/'' @ experiment_name a @ ''/'' @ score_dir"

definition score_path :: "run_args \<Rightarrow> string \<Rightarrow> string \<Rightarrow> string" where
  "score_path a score_dir f =
     ''results/scores/'' @ sae_model a @ ''/'' @ experiment_name a @ ''/'' @ score_dir
       @ ''/'' @ f @ ''.txt''"

definition explanations_config_path :: "run_args \<Rightarrow> string" where
  "explanations_config_path a =
     ''results/explanations/'' @ sae_model a @ ''/'' @ experiment_name a
       @ ''/experiment_config.json''"

definition scores_config_path :: "run_args \<Rightarrow> string \<Rightarrow> string" where
  "scores_config_path a score_dir =
     ''results/scores/'' @ sae_model a @ ''/'' @ experiment_name a @ ''/'' @ score_dir
       @ ''/experiment_config.json''"

section \<open>The hooks\<close>

text \<open>
  \<^verbatim>\<open>explainer_postprocess(result)\<close> writes the explanation to the file named after
  the record's feature and returns the result. What a hook returns is an optional value:
  \<open>None\<close> stands for Python's \<^verbatim>\<open>None\<close>.
\<close>

definition explainer_postprocess ::
  "run_args \<Rightarrow> explainer_result \<Rightarrow> world \<Rightarrow> error + (explainer_result option \<times> world)" where
  "explainer_postprocess a result w =
     (case open_write (explanation_path a (feature (store w (er_record result)))) ModeWB
             (Orjson_dumps (er_explanation result)) w of
        Inl e \<Rightarrow> Inl e
      | Inr w' \<Rightarrow> Inr (Some result, w'))"

text \<open>
  \<^verbatim>\<open>scorer_preprocess(result)\<close> assigns two attributes of the record the result
  refers to and returns that record.
\<close>

definition scorer_preprocess :: "explainer_result \<Rightarrow> world \<Rightarrow> nat \<times> world" where
  "scorer_preprocess result w =
     (let record = er_record result;
          w1 = w\<lparr>store := (store w)(record :=
                  (store w record)\<lparr>explanation := Some (er_explanation result)\<rparr>)\<rparr>;
          w2 = w1\<lparr>store := (store w1)(record :=
                  (store w1 record)\<lparr>extra_examples :=
                     Some (random_examples (store w1 record))\<rparr>)\<rparr>
      in (record, w2))"

text \<open>
  \<^verbatim>\<open>scorer_postprocess(result, score_dir)\<close> writes the score and has no
  \<^verbatim>\<open>return\<close> statement: the call evaluates to Python's \<^verbatim>\<open>None\<close>.
\<close>

definition scorer_postprocess ::
  "run_args \<Rightarrow> scorer_result \<Rightarrow> string \<Rightarrow> world \<Rightarrow> error + (scorer_result option \<times> world)" where
  "scorer_postprocess a result score_dir w =
     (let record = sr_record result in
      case open_write (score_path a score_dir (feature (store w record))) ModeWB
             (Orjson_dumps (sr_score result)) w of
        Inl e \<Rightarrow> Inl e
      | Inr w' \<Rightarrow> Inr (None, w'))"

section \<open>Set-up performed by \<open>main\<close> before the pipeline runs\<close>

text \<open>
  The client is bound only when the quantization option is \<^verbatim>\<open>"awq"\<close> or
  \<^verbatim>\<open>"none"\<close>; for any other value the local variable \<^verbatim>\<open>client\<close> stays
  unbound and its first use raises.
\<close>

definition load_client :: "string \<Rightarrow> string option" where
  "load_client q =
     (if q = ''awq'' then Some ''hugging-quants/Meta-Llama-3.1-70B-Instruct-AWQ-INT4''
      else if q = ''none'' then Some ''meta-llama/Meta-Llama-3.1-70B-Instruct''
      else None)"

text \<open>
  The statements of \<open>main\<close> that touch the file system, in source order, up to the
  call of \<^verbatim>\<open>pipeline.run\<close>. The result is the exception that ended the set-up,
  if any, and the world as it was left. Building the dataset, the loader and the
  client object is outside this file and taken to succeed; the \<^verbatim>\<open>print\<close> of the
  configuration is not recorded.
\<close>

definition main_setup :: "run_args \<Rightarrow> world \<Rightarrow> error option \<times> world" where
  "main_setup a w0 =
     (let client = load_client (quantization a);
          cfg = Json_dumps (experiment_cfg a) in
      case makedirs (explanations_dir a) True w0 of
        Inl e \<Rightarrow> (Some e, w0)
      | Inr w1 \<Rightarrow>
     (case client of
        None \<Rightarrow> (Some (UnboundLocalError ''client''), w1)
      | Some c \<Rightarrow>
     (case open_write (explanations_config_path a) ModeW cfg w1 of
        Inl e \<Rightarrow> (Some e, w1)
      | Inr w2 \<Rightarrow>
     (case makedirs (scores_dir a ''detection'') True w2 of
        Inl e \<Rightarrow> (Some e, w2)
      | Inr w3 \<Rightarrow>
     (case makedirs (scores_dir a ''fuzz'') True w3 of
        Inl e \<Rightarrow> (Some e, w3)
      | Inr w4 \<Rightarrow>
     (case open_write (scores_config_path a ''detection'') ModeW cfg w4 of
        Inl e \<Rightarrow> (Some e, w4)
      | Inr w5 \<Rightarrow>
     (case open_write (scores_config_path a ''fuzz'') ModeW cfg w5 of
        Inl e \<Rightarrow> (Some e, w5)
      | Inr w6 \<Rightarrow> (None, w6))))))))"

section \<open>The pipeline executor\<close>

text \<open>
  Modelled from the spec: the classes \<^verbatim>\<open>Pipeline\<close> and \<^verbatim>\<open>Pipe\<close> and the
  function \<^verbatim>\<open>process_wrapper\<close> of \<^verbatim>\<open>delphi.pipeline\<close> are imported by the
  script but their code is not part of the sources at hand. The types below hold what
  the specification's Executor keeps: the items of the source and how many have been
  admitted, the items in flight, and for every item the phase of each of its stages.
  A stage suspends exactly while its core function waits for the inference backend.
\<close>

datatype phase = Pending | Running | Finished | Failed

record exec_state =
  env :: world
  halted :: "error option"
  items :: "nat list"
  admitted :: nat
  inflight :: "nat list"
  phases :: "nat \<Rightarrow> stage \<Rightarrow> phase"
  outputs :: "nat \<Rightarrow> explainer_result option"
  completed :: "nat list"
  failed :: "nat list"

text \<open>
  Modelled from the spec: what the scheduler and the backend may do next. \<open>Admit\<close>
  takes the next item from the source; \<open>Begin k st\<close> starts stage \<open>st\<close> of item
  \<open>k\<close> (preprocess, then the core function suspends); \<open>Return k st r\<close> resumes it
  with the core function's outcome \<open>r\<close>, an exception or a value.
\<close>

datatype action = Admit | Begin nat stage | Return nat stage "error + pyval"

text \<open>Modelled from the spec: the executor before the first item is admitted.\<close>

definition executor_init :: "nat list \<Rightarrow> world \<Rightarrow> exec_state" where
  "executor_init xs w =
     \<lparr>env = w, halted = None, items = xs, admitted = 0, inflight = [],
      phases = (\<lambda>_ _. Pending), outputs = (\<lambda>_. None), completed = [], failed = []\<rparr>"

definition emit :: "event \<Rightarrow> exec_state \<Rightarrow> exec_state" where
  "emit e s = s\<lparr>env := (env s)\<lparr>trace := trace (env s) @ [e]\<rparr>\<rparr>"

definition set_phase :: "nat \<Rightarrow> stage \<Rightarrow> phase \<Rightarrow> exec_state \<Rightarrow> exec_state" where
  "set_phase k st ph s = s\<lparr>phases := (phases s)(k := (phases s k)(st := ph))\<rparr>"

text \<open>
  Modelled from the spec: an item has finished its traversal when its explainer stage
  failed (terminal for the item, no later position runs), or when the explainer stage
  finished and every member of the fan-out group has completed or failed.
\<close>

definition item_finished :: "(stage \<Rightarrow> phase) \<Rightarrow> bool" where
  "item_finished ph \<longleftrightarrow>
     ph Explainer = Failed \<or>
     (ph Explainer = Finished \<and> (ph Detection = Finished \<or> ph Detection = Failed)
        \<and> (ph Fuzz = Finished \<or> ph Fuzz = Failed))"

definition item_succeeded :: "(stage \<Rightarrow> phase) \<Rightarrow> bool" where
  "item_succeeded ph \<longleftrightarrow>
     ph Explainer = Finished \<and> ph Detection = Finished \<and> ph Fuzz = Finished"

text \<open>
  Modelled from the spec: when a driver finishes an item, successfully or with a
  terminal failure, the item leaves the pool and its slot is free again.
\<close>

definition settle :: "nat \<Rightarrow> exec_state \<Rightarrow> exec_state" where
  "settle k s =
     (if item_finished (phases s k) then
        (if item_succeeded (phases s k)
         then emit (EvDone k)
                (s\<lparr>inflight := removeAll k (inflight s), completed := completed s @ [k]\<rparr>)
         else emit (EvAbandon k)
                (s\<lparr>inflight := removeAll k (inflight s), failed := failed s @ [k]\<rparr>))
      else s)"

text \<open>
  Modelled from the spec: admission. The next unconsumed item is admitted only while
  fewer than \<open>N\<close> items are in flight.
\<close>

definition admit :: "nat \<Rightarrow> exec_state \<Rightarrow> exec_state option" where
  "admit N s =
     (if admitted s < length (items s) \<and> length (inflight s) < N
      then Some (emit (EvAdmit (admitted s))
                   (s\<lparr>admitted := Suc (admitted s), inflight := inflight s @ [admitted s]\<rparr>))
      else None)"

text \<open>
  Modelled from the spec: the first half of a wrapped stage. The explainer stage has no
  preprocess hook (identity). A scorer stage starts only when the explainer stage of the
  same item has finished; both members of the fan-out group receive the explainer stage's
  output and run \<open>scorer_preprocess\<close> on it.
\<close>

definition begin_stage :: "nat \<Rightarrow> stage \<Rightarrow> exec_state \<Rightarrow> exec_state option" where
  "begin_stage k st s =
     (if k \<in> set (inflight s) \<and> phases s k st = Pending then
        (case st of
           Explainer \<Rightarrow> Some (emit (EvBegin k Explainer) (set_phase k Explainer Running s))
         | _ \<Rightarrow>
            (if phases s k Explainer = Finished then
               (case outputs s k of
                  None \<Rightarrow> None
                | Some r \<Rightarrow>
                    (case scorer_preprocess r (env s) of
                       (record, w') \<Rightarrow>
                         Some (emit (EvBegin k st) (set_phase k st Running (s\<lparr>env := w'\<rparr>)))))
             else None))
      else None)"

text \<open>
  Modelled from the spec: the second half of a scorer stage, with the hook the script
  passes (\<open>scorer_postprocess\<close> with its \<open>score_dir\<close>). The core function's result
  refers to the record the preprocess hook returned. A failing write is a persistence
  error and stops the run.
\<close>

definition scorer_return ::
  "run_args \<Rightarrow> nat \<Rightarrow> stage \<Rightarrow> string \<Rightarrow> pyval \<Rightarrow> exec_state \<Rightarrow> exec_state option" where
  "scorer_return a k st score_dir v s =
     (case outputs s k of
        None \<Rightarrow> None
      | Some r \<Rightarrow>
          (case scorer_postprocess a \<lparr>sr_record = fst (scorer_preprocess r (env s)), sr_score = v\<rparr>
                  score_dir (env s) of
             Inl e \<Rightarrow> Some (s\<lparr>halted := Some e\<rparr>)
           | Inr (out, w') \<Rightarrow>
               Some (settle k (emit (EvEnd k st) (set_phase k st Finished (s\<lparr>env := w'\<rparr>))))))"

text \<open>
  Modelled from the spec: the second half of a wrapped stage. An exception of the core
  function is caught and reported with the item and the stage, and is terminal for the
  item at that position; a value goes through the stage's postprocess hook, whose
  return value is the stage's output.
\<close>

definition return_stage ::
  "run_args \<Rightarrow> nat \<Rightarrow> stage \<Rightarrow> error + pyval \<Rightarrow> exec_state \<Rightarrow> exec_state option" where
  "return_stage a k st r s =
     (if k \<in> set (inflight s) \<and> k < length (items s) \<and> phases s k st = Running then
        (case r of
           Inl e \<Rightarrow> Some (settle k (emit (EvFail k st e) (set_phase k st Failed s)))
         | Inr v \<Rightarrow>
            (case st of
               Explainer \<Rightarrow>
                 (case explainer_postprocess a
                         \<lparr>er_record = items s ! k, er_explanation = v\<rparr> (env s) of
                    Inl e \<Rightarrow> Some (s\<lparr>halted := Some e\<rparr>)
                  | Inr (out, w') \<Rightarrow>
                      Some (settle k (emit (EvEnd k Explainer)
                              (set_phase k Explainer Finished
                                 (s\<lparr>env := w', outputs := (outputs s)(k := out)\<rparr>)))))
             | Detection \<Rightarrow> scorer_return a k Detection ''detection'' v s
             | Fuzz \<Rightarrow> scorer_return a k Fuzz ''fuzz'' v s))
      else None)"

text \<open>
  Modelled from the spec: one step of the executor. \<open>None\<close> means the action is not
  possible in this state; nothing is possible once the run has been stopped.
\<close>

definition exec_step :: "nat \<Rightarrow> run_args \<Rightarrow> action \<Rightarrow> exec_state \<Rightarrow> exec_state option" where
  "exec_step N a act s =
     (if halted s \<noteq> None then None
      else case act of
             Admit \<Rightarrow> admit N s
           | Begin k st \<Rightarrow> begin_stage k st s
           | Return k st r \<Rightarrow> return_stage a k st r s)"

text \<open>
  Modelled from the spec: \<^verbatim>\<open>Pipeline.run(N)\<close> under a schedule, the list of
  actions the scheduler and the backend take. Every interleaving of the item drivers is
  the run under some schedule.
\<close>

fun pipeline_run :: "nat \<Rightarrow> run_args \<Rightarrow> action list \<Rightarrow> exec_state \<Rightarrow> exec_state option" where
  "pipeline_run N a [] s = Some s"
| "pipeline_run N a (x # xs) s =
     (case exec_step N a x s of None \<Rightarrow> None | Some s' \<Rightarrow> pipeline_run N a xs s')"

text \<open>
  Modelled from the spec: the Executor terminates when the source is exhausted and every
  admitted item has finished; \<open>items_processed\<close> counts the items whose traversal
  has ended.
\<close>

definition run_complete :: "exec_state \<Rightarrow> bool" where
  "run_complete s \<longleftrightarrow> admitted s = length (items s) \<and> inflight s = []"

definition items_processed :: "exec_state \<Rightarrow> nat" where
  "items_processed s = length (completed s) + length (failed s)"

text \<open>
  \<open>main\<close>: the set-up, then \<^verbatim>\<open>asyncio.run(pipeline.run(50))\<close> over the items
  the loader yields. An exception during the set-up leaves \<open>main\<close> before the pipeline
  is built, so no action of the executor takes place.
\<close>

definition main :: "run_args \<Rightarrow> nat list \<Rightarrow> world \<Rightarrow> action list \<Rightarrow> exec_state option" where
  "main a xs w sched =
     (case main_setup a w of
        (err, w') \<Rightarrow> pipeline_run 50 a sched ((executor_init xs w')\<lparr>halted := err\<rparr>))"

section \<open>Notions used to state the properties\<close>

text \<open>The events a run has added to the journal of the world it started from.\<close>

definition events_since :: "world \<Rightarrow> exec_state \<Rightarrow> event list" where
  "events_since w s = drop (length (trace w)) (trace (env s))"

text \<open>The file a stage's postprocess hook writes for a record with the given feature.\<close>

definition stage_path :: "run_args \<Rightarrow> stage \<Rightarrow> string \<Rightarrow> string" where
  "stage_path a st f =
     (case st of
        Explainer \<Rightarrow> explanation_path a f
      | Detection \<Rightarrow> score_path a ''detection'' f
      | Fuzz \<Rightarrow> score_path a ''fuzz'' f)"

text \<open>
  \<open>precedes x y tr\<close>: every occurrence of \<open>y\<close> in \<open>tr\<close> comes after an
  occurrence of \<open>x\<close>.
\<close>

fun precedes :: "'a \<Rightarrow> 'a \<Rightarrow> 'a list \<Rightarrow> bool" where
  "precedes x y [] = True"
| "precedes x y (e # es) = (if e = x then True else e \<noteq> y \<and> precedes x y es)"

fun is_admit :: "event \<Rightarrow> bool" where
  "is_admit (EvAdmit k) = True"
| "is_admit _ = False"

fun is_makedirs :: "event \<Rightarrow> bool" where
  "is_makedirs (EvMakedirs p) = True"
| "is_makedirs _ = False"

text \<open>The configuration is the only value the script serialises with \<^verbatim>\<open>json.dumps\<close>.\<close>

fun is_config_write :: "event \<Rightarrow> bool" where
  "is_config_write (EvWrite p (Json_dumps v)) = True"
| "is_config_write _ = False"

fun is_write :: "event \<Rightarrow> bool" where
  "is_write (EvWrite p c) = True"
| "is_write _ = False"

text \<open>The chunks written to one path, in order.\<close>

fun writes_to :: "string \<Rightarrow> event list \<Rightarrow> chunk list" where
  "writes_to p [] = []"
| "writes_to p (EvWrite q c # es) = (if q = p then c # writes_to p es else writes_to p es)"
| "writes_to p (e # es) = writes_to p es"

text \<open>The journal entries of a set-up that runs to its end.\<close>

definition setup_events :: "run_args \<Rightarrow> event list" where
  "setup_events a =
     [EvMakedirs (explanations_dir a),
      EvWrite (explanations_config_path a) (Json_dumps (experiment_cfg a)),
      EvMakedirs (scores_dir a ''detection''),
      EvMakedirs (scores_dir a ''fuzz''),
      EvWrite (scores_config_path a ''detection'') (Json_dumps (experiment_cfg a)),
      EvWrite (scores_config_path a ''fuzz'') (Json_dumps (experiment_cfg a))]"

text \<open>What a run leaves on disk: directories and files.\<close>

definition same_persisted :: "world \<Rightarrow> world \<Rightarrow> bool" where
  "same_persisted w w' \<longleftrightarrow> dirs w = dirs w' \<and> files w = files w'"

text \<open>
  The relations the executor keeps between its fields: the pool holds exactly the
  admitted items whose traversal has not ended, items not yet admitted have not started,
  a scorer stage has started only after the explainer stage finished, and a finished
  explainer stage has left its result for the scorers.
\<close>

definition wf_exec :: "exec_state \<Rightarrow> bool" where
  "wf_exec s \<longleftrightarrow>
     admitted s \<le> length (items s)
     \<and> distinct (inflight s)
     \<and> (\<forall>k. k \<in> set (inflight s) \<longleftrightarrow> k < admitted s \<and> \<not> item_finished (phases s k))
     \<and> (\<forall>k st. admitted s \<le> k \<longrightarrow> phases s k st = Pending)
     \<and> (\<forall>k. phases s k Explainer \<noteq> Finished \<longrightarrow>
            phases s k Detection = Pending \<and> phases s k Fuzz = Pending)
     \<and> (\<forall>k. phases s k Explainer = Finished \<longrightarrow>
            (\<exists>e. outputs s k = Some \<lparr>er_record = items s ! k, er_explanation = e\<rparr>))
     \<and> distinct (completed s) \<and> distinct (failed s)
     \<and> (\<forall>k. k \<in> set (completed s) \<longleftrightarrow> k < admitted s \<and> item_succeeded (phases s k))
     \<and> (\<forall>k. k \<in> set (failed s) \<longleftrightarrow>
            k < admitted s \<and> item_finished (phases s k) \<and> \<not> item_succeeded (phases s k))"

section \<open>A concrete run\<close>

text \<open>
  Two records with features \<^verbatim>\<open>f0\<close> and \<^verbatim>\<open>f1\<close>, the default model and experiment
  names of the argument parser, an empty working directory, and one schedule in which the
  first item passes all three stages while the explainer of the second one fails.
\<close>

definition example_args :: run_args where
  "example_args =
     \<lparr>sae_model = ''128k'', experiment_name = ''default'', quantization = ''awq'',
      experiment_cfg = PyDict [(''n_random'', PyInt 5)]\<rparr>"

definition example_world :: world where
  "example_world =
     \<lparr>store = (\<lambda>n. \<lparr>feature = (if n = 0 then ''f0'' else ''f1''),
                     random_examples = PyList [PyInt (int n)],
                     extra_examples = None, explanation = None\<rparr>),
      dirs = {}, files = Map.empty, trace = []\<rparr>"

definition example_schedule :: "action list" where
  "example_schedule =
     [Admit, Begin 0 Explainer, Admit, Return 0 Explainer (Inr (PyStr ''x'')),
      Begin 0 Detection, Begin 1 Explainer, Begin 0 Fuzz, Return 0 Fuzz (Inr (PyInt 1)),
      Return 1 Explainer (Inl (BackendError ''boom'')), Return 0 Detection (Inr (PyInt 2))]"

section \<open>The hooks: what they return and what they leave behind\<close>

lemma scorer_preprocess_fst: "fst (scorer_preprocess result w) = er_record result"
  by (simp add: scorer_preprocess_def Let_def)

lemma scorer_preprocess_snd:
  "snd (scorer_preprocess result w) =
     w\<lparr>store := (store w)(er_record result :=
          (store w (er_record result))
            \<lparr>explanation := Some (er_explanation result),
             extra_examples := Some (random_examples (store w (er_record result)))\<rparr>)\<rparr>"
  by (simp add: scorer_preprocess_def Let_def)

text \<open>
  C10. \<open>scorer_preprocess\<close> returns the record its argument refers to, whatever the
  state of the world, so both scorer stages receive the same record; it sets the
  record's explanation to the result's and its extra examples to its random examples;
  and applying it a second time returns the same record and leaves the world as the
  first application left it.
\<close>

theorem scorer_preprocess_idempotent:
  "fst (scorer_preprocess result w) = er_record result
   \<and> explanation (store (snd (scorer_preprocess result w)) (er_record result))
        = Some (er_explanation result)
   \<and> extra_examples (store (snd (scorer_preprocess result w)) (er_record result))
        = Some (random_examples (store w (er_record result)))
   \<and> scorer_preprocess result (snd (scorer_preprocess result w)) = scorer_preprocess result w"
  by (simp add: scorer_preprocess_def Let_def)

text \<open>
  C3. The claim that every postprocess hook returns the stage output it was given fails
  for \<open>scorer_postprocess\<close>: on the score of the first record, in the world the
  set-up leaves behind, the write succeeds and the value returned is \<open>None\<close>, not
  the result. The same holds for the fuzz stage.
\<close>

theorem scorer_postprocess_returns_none:
  "map_sum id fst
     (scorer_postprocess example_args \<lparr>sr_record = 0, sr_score = PyInt 2\<rparr> ''detection''
        (snd (main_setup example_args example_world))) = Inr None
   \<and> map_sum id fst
     (scorer_postprocess example_args \<lparr>sr_record = 0, sr_score = PyInt 1\<rparr> ''fuzz''
        (snd (main_setup example_args example_world))) = Inr None"
  by code_simp

end
